theory Spec2Isabelle
  imports Main
begin

section \<open>Errors, log entries and the observable state\<close>

text \<open>
  The values a lifecycle operation can reject with.  \<open>Error\<close> is the plain JavaScript
  \<^verbatim>\<open>new Error(msg)\<close> thrown by \<^verbatim>\<open>install\<close>; \<open>ResponseError\<close>, \<open>ConnectionError\<close> and
  \<open>TimeoutError\<close> are what the Elasticsearch client rejects with;
  \<open>RetriesExhaustedError\<close> is the wrapper of the retry policy around the last
  transient error.
\<close>

datatype error =
    Error string
  | ResponseError nat
  | ConnectionError
  | TimeoutError
  | RetriesExhaustedError error

datatype error_class = TRANSIENT | FATAL

datatype level = WARN | ERROR

text \<open>
  What reaches the logging sink.  \<open>Message\<close> is a call \<^verbatim>\<open>logger.error(text)\<close> or
  \<^verbatim>\<open>logger.warn(text)\<close> of the transform manager.  The retry policy's entries keep their
  content structured: a retry carries the attempt count and the original error, the
  report of a fatal failure carries the error.
\<close>

datatype log_entry =
    Message level string
  | RetryAttempt nat error
  | FatalFailure error

fun severity :: "log_entry \<Rightarrow> level" where
  "severity (Message l m) = l"
| "severity (RetryAttempt n e) = WARN"
| "severity (FatalFailure e) = ERROR"

text \<open>
  The state an operation runs in: \<open>env\<close> is what the retried unit of work itself acts
  on (for the transform manager, the requests the Elasticsearch client has sent so
  far), \<open>logs\<close> is the logging sink, \<open>delays\<close> the waits between attempts in the order
  they were taken, and \<open>op_calls\<close> counts the invocations of retried operations.
\<close>

record 's world =
  env :: 's
  logs :: "log_entry list"
  delays :: "nat list"
  op_calls :: nat

section \<open>The retry policy\<close>

record RetryConfig =
  maxRetries :: nat
  baseDelay :: nat

type_synonym ('s, 'a) RetryableOperation = "'s \<Rightarrow> (error + 'a) \<times> 's"

text \<open>
  Modelled from the spec: the module \<^verbatim>\<open>utils/retry\<close> that \<^verbatim>\<open>transform_manager.ts\<close>
  imports its retry wrapper from is not among the sources, so the loop follows the
  contract of the retry policy.  It invokes the operation; a success is returned at
  once; a failure is classified; a fatal failure is logged once at error severity and
  propagated without a retry; a transient failure is retried while fewer than
  \<open>maxRetries\<close> retries have been made, each retry logged with the attempt count and
  the original error and preceded by a wait of \<open>baseDelay * 2 ^ attempt\<close>; when the
  retries are used up the last transient error is returned wrapped in
  \<open>RetriesExhaustedError\<close>.  \<open>attempt\<close> is the number of retries made so far, so the
  first invocation is attempt 0.  The classifier is a parameter.
\<close>

function retryLoop ::
  "(error \<Rightarrow> error_class) \<Rightarrow> RetryConfig \<Rightarrow> ('s, 'a) RetryableOperation \<Rightarrow> nat \<Rightarrow>
   's world \<Rightarrow> (error + 'a) \<times> 's world" where
  "retryLoop classify config op attempt w =
     (case op (env w) of (r, s') \<Rightarrow>
        (case r of
           Inr v \<Rightarrow> (Inr v, w\<lparr>env := s', op_calls := op_calls w + 1\<rparr>)
         | Inl e \<Rightarrow>
             (if classify e = FATAL
              then (Inl e, w\<lparr>env := s', op_calls := op_calls w + 1,
                             logs := logs w @ [FatalFailure e]\<rparr>)
              else if attempt < maxRetries config
              then retryLoop classify config op (attempt + 1)
                     (w\<lparr>env := s', op_calls := op_calls w + 1,
                        logs := logs w @ [RetryAttempt attempt e],
                        delays := delays w @ [baseDelay config * 2 ^ attempt]\<rparr>)
              else (Inl (RetriesExhaustedError e),
                    w\<lparr>env := s', op_calls := op_calls w + 1\<rparr>))))"
  by pat_completeness auto
termination
  by (relation "measure (\<lambda>(classify, config, op, attempt, w). maxRetries config - attempt)")
     auto

declare retryLoop.simps [simp del]

definition executeWithRetry ::
  "(error \<Rightarrow> error_class) \<Rightarrow> ('s, 'a) RetryableOperation \<Rightarrow> RetryConfig \<Rightarrow>
   's world \<Rightarrow> (error + 'a) \<times> 's world" where
  "executeWithRetry classify op config w = retryLoop classify config op 0 w"

text \<open>
  The outcomes of successive invocations of an operation from a starting state:
  \<open>envBefore op s k\<close> is the state in which invocation \<open>k\<close> (counted from 0) runs,
  \<open>attemptResult op s k\<close> what that invocation returns.
\<close>

primrec envBefore :: "('s, 'a) RetryableOperation \<Rightarrow> 's \<Rightarrow> nat \<Rightarrow> 's" where
  "envBefore op s 0 = s"
| "envBefore op s (Suc k) = snd (op (envBefore op s k))"

definition attemptResult :: "('s, 'a) RetryableOperation \<Rightarrow> 's \<Rightarrow> nat \<Rightarrow> error + 'a" where
  "attemptResult op s k = fst (op (envBefore op s k))"

definition failsTransiently ::
  "(error \<Rightarrow> error_class) \<Rightarrow> ('s, 'a) RetryableOperation \<Rightarrow> 's \<Rightarrow> nat \<Rightarrow> bool" where
  "failsTransiently classify op s k =
     (case attemptResult op s k of Inl e \<Rightarrow> classify e = TRANSIENT | Inr v \<Rightarrow> False)"

section \<open>The transform manager\<close>

type_synonym TransformId = string

record Indicator =
  type :: string

record SLO =
  indicator :: Indicator

record TransformPutTransformRequest =
  transform_id :: TransformId
  body :: string

text \<open>
  \<^verbatim>\<open>generator.getTransformParams(slo)\<close> either produces the parameters of the put
  request or throws; the generators themselves are not among the sources, so which
  SLOs one rejects is left to the generator given.
\<close>

record TransformGenerator =
  getTransformParams :: "SLO \<Rightarrow> error + TransformPutTransformRequest"

text \<open>
  The requests \<^verbatim>\<open>transform_manager.ts\<close> sends through \<^verbatim>\<open>esClient.transform\<close>, with the
  parameters it sets: \<open>StopTransform id wait_for_completion force\<close> and
  \<open>DeleteTransform id force\<close>.  A call is a request together with the status codes of
  its \<^verbatim>\<open>ignore\<close> option.
\<close>

datatype es_request =
    PutTransform TransformPutTransformRequest
  | PreviewTransform TransformId
  | StartTransform TransformId
  | StopTransform TransformId bool bool
  | DeleteTransform TransformId bool

type_synonym es_call = "es_request \<times> nat list"

text \<open>
  What the backend answers to one call: success, an error status code, or no answer
  at all.  The client is a parameter: its answer may depend on the call and on every
  call sent before it.
\<close>

datatype es_reply = Ok | ErrorStatus nat | Unreachable | TimedOut

type_synonym ElasticsearchClient = "es_call list \<Rightarrow> es_call \<Rightarrow> es_reply"

text \<open>
  Modelled from the spec: the Elasticsearch client library is not among the sources.
  A call resolves when the backend answers success or answers an error status that
  the call's \<^verbatim>\<open>ignore\<close> list names (an ignorable outcome is folded into success); any
  other answer rejects.
\<close>

definition transportResult :: "nat list \<Rightarrow> es_reply \<Rightarrow> error + unit" where
  "transportResult ignore reply =
     (case reply of
        Ok \<Rightarrow> Inr ()
      | ErrorStatus code \<Rightarrow> if code \<in> set ignore then Inr () else Inl (ResponseError code)
      | Unreachable \<Rightarrow> Inl ConnectionError
      | TimedOut \<Rightarrow> Inl TimeoutError)"

text \<open>One call through the client: the call is recorded in the history it extends.\<close>

definition esCall :: "ElasticsearchClient \<Rightarrow> es_call \<Rightarrow> (es_call list, unit) RetryableOperation" where
  "esCall client c history = (transportResult (snd c) (client history c), history @ [c])"

text \<open>
  \<^verbatim>\<open>retryTransientEsErrors(esCall, { logger })\<close>: the call site passes the operation and
  the logger only, so the classifier, the number of retries and the base delay are
  constants of the absent module and are parameters here.
\<close>

definition retryTransientEsErrors ::
  "(error \<Rightarrow> error_class) \<Rightarrow> RetryConfig \<Rightarrow> ('s, 'a) RetryableOperation \<Rightarrow>
   's world \<Rightarrow> (error + 'a) \<times> 's world" where
  "retryTransientEsErrors classify config operation w =
     executeWithRetry classify operation config w"

record DefaultTransformManager =
  generators :: "string \<rightharpoonup> TransformGenerator"
  esClient :: ElasticsearchClient

definition logError :: "string \<Rightarrow> 's world \<Rightarrow> 's world" where
  "logError text w = w\<lparr>logs := logs w @ [Message ERROR text]\<rparr>"

text \<open>
  \<^verbatim>\<open>install\<close>: the generator is called before the \<^verbatim>\<open>try\<close> block, so an error it throws
  reaches the caller as it is, with nothing logged; only the put request is inside
  the \<^verbatim>\<open>try\<close>.
\<close>

definition install ::
  "(error \<Rightarrow> error_class) \<Rightarrow> RetryConfig \<Rightarrow> DefaultTransformManager \<Rightarrow> SLO \<Rightarrow>
   es_call list world \<Rightarrow> (error + TransformId) \<times> es_call list world" where
  "install classify config this slo w =
     (case generators this (type (indicator slo)) of
        None \<Rightarrow>
          (Inl (Error (''Unsupported indicator type ['' @ type (indicator slo) @ '']'')),
           logError (''No transform generator found for indicator type ['' @
                     type (indicator slo) @ '']'') w)
      | Some generator \<Rightarrow>
          (case getTransformParams generator slo of
             Inl thrown \<Rightarrow> (Inl thrown, w)
           | Inr transformParams \<Rightarrow>
               (case retryTransientEsErrors classify config
                       (esCall (esClient this) (PutTransform transformParams, [])) w of
                  (Inl err, w') \<Rightarrow>
                    (Inl err,
                     logError (''Cannot create SLO transform for indicator type ['' @
                               type (indicator slo) @ '']'') w')
                | (Inr u, w') \<Rightarrow> (Inr (transform_id transformParams), w'))))"

definition preview ::
  "(error \<Rightarrow> error_class) \<Rightarrow> RetryConfig \<Rightarrow> DefaultTransformManager \<Rightarrow> TransformId \<Rightarrow>
   es_call list world \<Rightarrow> (error + unit) \<times> es_call list world" where
  "preview classify config this transformId w =
     (case retryTransientEsErrors classify config
             (esCall (esClient this) (PreviewTransform transformId, [])) w of
        (Inl err, w') \<Rightarrow>
          (Inl err, logError (''Cannot preview SLO transform ['' @ transformId @ '']'') w')
      | (Inr u, w') \<Rightarrow> (Inr (), w'))"

definition start ::
  "(error \<Rightarrow> error_class) \<Rightarrow> RetryConfig \<Rightarrow> DefaultTransformManager \<Rightarrow> TransformId \<Rightarrow>
   es_call list world \<Rightarrow> (error + unit) \<times> es_call list world" where
  "start classify config this transformId w =
     (case retryTransientEsErrors classify config
             (esCall (esClient this) (StartTransform transformId, [409])) w of
        (Inl err, w') \<Rightarrow>
          (Inl err, logError (''Cannot start SLO transform ['' @ transformId @ '']'') w')
      | (Inr u, w') \<Rightarrow> (Inr (), w'))"

definition stop ::
  "(error \<Rightarrow> error_class) \<Rightarrow> RetryConfig \<Rightarrow> DefaultTransformManager \<Rightarrow> TransformId \<Rightarrow>
   es_call list world \<Rightarrow> (error + unit) \<times> es_call list world" where
  "stop classify config this transformId w =
     (case retryTransientEsErrors classify config
             (esCall (esClient this) (StopTransform transformId True True, [404])) w of
        (Inl err, w') \<Rightarrow>
          (Inl err, logError (''Cannot stop SLO transform ['' @ transformId @ '']'') w')
      | (Inr u, w') \<Rightarrow> (Inr (), w'))"

definition uninstall ::
  "(error \<Rightarrow> error_class) \<Rightarrow> RetryConfig \<Rightarrow> DefaultTransformManager \<Rightarrow> TransformId \<Rightarrow>
   es_call list world \<Rightarrow> (error + unit) \<times> es_call list world" where
  "uninstall classify config this transformId w =
     (case retryTransientEsErrors classify config
             (esCall (esClient this) (DeleteTransform transformId True, [404])) w of
        (Inl err, w') \<Rightarrow>
          (Inl err, logError (''Cannot delete SLO transform ['' @ transformId @ '']'') w')
      | (Inr u, w') \<Rightarrow> (Inr (), w'))"

section \<open>Notions the properties are stated with\<close>

text \<open>The test a caller branches on: is the error the wrapper for used-up retries?\<close>

fun retriesExhausted :: "error \<Rightarrow> bool" where
  "retriesExhausted (RetriesExhaustedError e) = True"
| "retriesExhausted e = False"

text \<open>The calls sent to the backend between two states, oldest first.\<close>

definition issued :: "es_call list world \<Rightarrow> es_call list world \<Rightarrow> es_call list" where
  "issued w w' = drop (length (env w)) (env w')"

text \<open>
  The entries logged between two states, oldest first, and the test for an entry the
  transform manager wrote itself (the others are the retry policy's).
\<close>

definition logged :: "'s world \<Rightarrow> 's world \<Rightarrow> log_entry list" where
  "logged w w' = drop (length (logs w)) (logs w')"

fun fromManager :: "log_entry \<Rightarrow> bool" where
  "fromManager (Message l m) = True"
| "fromManager e = False"

text \<open>The request parameters of the same names; \<open>None\<close> where a request does not set one.\<close>

fun wait_for_completion :: "es_request \<Rightarrow> bool option" where
  "wait_for_completion (StopTransform i wfc f) = Some wfc"
| "wait_for_completion r = None"

fun force :: "es_request \<Rightarrow> bool option" where
  "force (StopTransform i wfc f) = Some f"
| "force (DeleteTransform i f) = Some f"
| "force r = None"

text \<open>
  A classifier in the sense of the retry policy, used for the concrete runs below:
  no answer, a timeout and the statuses 429 and 503 are transient, everything else is
  fatal.
\<close>

fun exampleClassify :: "error \<Rightarrow> error_class" where
  "exampleClassify ConnectionError = TRANSIENT"
| "exampleClassify TimeoutError = TRANSIENT"
| "exampleClassify (ResponseError code) = (if code = 429 \<or> code = 503 then TRANSIENT else FATAL)"
| "exampleClassify e = FATAL"

text \<open>A starting state with nothing sent, logged or waited for.\<close>

definition emptyWorld :: "es_call list world" where
  "emptyWorld = \<lparr>env = [], logs = [], delays = [], op_calls = 0\<rparr>"

text \<open>
  A client that gives no answer to the first two calls it receives and answers
  success from the third on.
\<close>

definition flakyClient :: ElasticsearchClient where
  "flakyClient history c = (if length history < 2 then Unreachable else Ok)"

definition exampleGenerator :: TransformGenerator where
  "exampleGenerator =
     \<lparr>getTransformParams =
        (\<lambda>slo. Inr \<lparr>transform_id = ''slo-'' @ type (indicator slo), body = ''{}''\<rparr>)\<rparr>"

text \<open>A generator that rejects every SLO it is given.\<close>

definition rejectingGenerator :: TransformGenerator where
  "rejectingGenerator = \<lparr>getTransformParams = (\<lambda>slo. Inl (Error ''Invalid KQL''))\<rparr>"

definition exampleManager :: "ElasticsearchClient \<Rightarrow> DefaultTransformManager" where
  "exampleManager client =
     \<lparr>generators = [''sli.kql.custom'' \<mapsto> exampleGenerator,
                     ''sli.apm.transactionDuration'' \<mapsto> rejectingGenerator],
      esClient = client\<rparr>"

definition exampleConfig :: RetryConfig where
  "exampleConfig = \<lparr>maxRetries = 3, baseDelay = 100\<rparr>"

section \<open>One step of the retry loop\<close>

lemma retryLoop_success:
  "op (env w) = (Inr v, s') \<Longrightarrow>
   retryLoop classify config op attempt w = (Inr v, w\<lparr>env := s', op_calls := op_calls w + 1\<rparr>)"
  by (subst retryLoop.simps) simp

lemma retryLoop_fatal:
  "op (env w) = (Inl e, s') \<Longrightarrow> classify e = FATAL \<Longrightarrow>
   retryLoop classify config op attempt w =
     (Inl e, w\<lparr>env := s', op_calls := op_calls w + 1, logs := logs w @ [FatalFailure e]\<rparr>)"
  by (subst retryLoop.simps) simp

lemma retryLoop_retry:
  "op (env w) = (Inl e, s') \<Longrightarrow> classify e = TRANSIENT \<Longrightarrow> attempt < maxRetries config \<Longrightarrow>
   retryLoop classify config op attempt w =
     retryLoop classify config op (attempt + 1)
       (w\<lparr>env := s', op_calls := op_calls w + 1,
          logs := logs w @ [RetryAttempt attempt e],
          delays := delays w @ [baseDelay config * 2 ^ attempt]\<rparr>)"
  by (subst retryLoop.simps) simp

lemma retryLoop_exhausted:
  "op (env w) = (Inl e, s') \<Longrightarrow> classify e = TRANSIENT \<Longrightarrow> \<not> attempt < maxRetries config \<Longrightarrow>
   retryLoop classify config op attempt w =
     (Inl (RetriesExhaustedError e), w\<lparr>env := s', op_calls := op_calls w + 1\<rparr>)"
  by (subst retryLoop.simps) simp

lemma failsTransientlyD:
  "failsTransiently classify op s k \<Longrightarrow>
   op (envBefore op s k) = (Inl (projl (attemptResult op s k)), envBefore op s (Suc k)) \<and>
   classify (projl (attemptResult op s k)) = TRANSIENT"
  by (cases "op (envBefore op s k)")
     (auto simp: failsTransiently_def attemptResult_def split: sum.splits)

lemma retryLoop_prefix:
  assumes "\<forall>k<n. failsTransiently classify op s k" and "n \<le> maxRetries config"
  shows "retryLoop classify config op 0 \<lparr>env = s, logs = l, delays = d, op_calls = c\<rparr> =
         retryLoop classify config op n
           \<lparr>env = envBefore op s n,
            logs = l @ map (\<lambda>k. RetryAttempt k (projl (attemptResult op s k))) [0..<n],
            delays = d @ map (\<lambda>k. baseDelay config * 2 ^ k) [0..<n],
            op_calls = c + n\<rparr>"
  using assms
proof (induction n)
  case 0
  then show ?case by simp
next
  case (Suc n)
  from Suc.prems have tr: "failsTransiently classify op s n" and lt: "n < maxRetries config"
    by auto
  from Suc have "retryLoop classify config op 0 \<lparr>env = s, logs = l, delays = d, op_calls = c\<rparr> =
         retryLoop classify config op n
           \<lparr>env = envBefore op s n,
            logs = l @ map (\<lambda>k. RetryAttempt k (projl (attemptResult op s k))) [0..<n],
            delays = d @ map (\<lambda>k. baseDelay config * 2 ^ k) [0..<n],
            op_calls = c + n\<rparr>"
    by simp
  also have "\<dots> = retryLoop classify config op (Suc n)
           \<lparr>env = envBefore op s (Suc n),
            logs = l @ map (\<lambda>k. RetryAttempt k (projl (attemptResult op s k))) [0..<Suc n],
            delays = d @ map (\<lambda>k. baseDelay config * 2 ^ k) [0..<Suc n],
            op_calls = c + Suc n\<rparr>"
    using failsTransientlyD[OF tr] lt
    by (subst retryLoop_retry[where e = "projl (attemptResult op s n)" and s' = "envBefore op s (Suc n)"]) simp_all
  finally show ?case .
qed


lemma retryLoop_prefix_world:
  assumes "\<forall>k<n. failsTransiently classify op (env w) k" and "n \<le> maxRetries config"
  shows "retryLoop classify config op 0 (w :: 's world) =
         retryLoop classify config op n
           \<lparr>env = envBefore op (env w) n,
            logs = logs w @ map (\<lambda>k. RetryAttempt k (projl (attemptResult op (env w) k))) [0..<n],
            delays = delays w @ map (\<lambda>k. baseDelay config * 2 ^ k) [0..<n],
            op_calls = op_calls w + n\<rparr>"
  using retryLoop_prefix[OF assms, of "logs w" "delays w" "op_calls w"] by (cases w) simp

section \<open>What every run of the retry loop preserves\<close>

lemma retryLoop_env:
  assumes "\<forall>h. snd (op h) = h @ [c]"
  shows "\<exists>n. 0 < n \<and> env (snd (retryLoop classify config op a w)) = env w @ replicate n c"
  using assms
proof (induction classify config op a w rule: retryLoop.induct)
  case (1 classify config op attempt w)
  obtain r s' where o: "op (env w) = (r, s')" by (cases "op (env w)")
  with "1.prems" have s': "s' = env w @ [c]" by (metis snd_conv)
  show ?case
  proof (cases r)
    case (Inr v)
    with o s' have "env (snd (retryLoop classify config op attempt w)) = env w @ replicate 1 c"
      by (simp add: retryLoop_success[where v = v and s' = s'])
    then show ?thesis by (intro exI[of _ 1]) simp
  next
    case (Inl e)
    show ?thesis
    proof (cases "classify e")
      case FATAL
      with o s' Inl have "env (snd (retryLoop classify config op attempt w)) = env w @ replicate 1 c"
        by (simp add: retryLoop_fatal[where e = e and s' = s'])
      then show ?thesis by (intro exI[of _ 1]) simp
    next
      case TRANSIENT
      show ?thesis
      proof (cases "attempt < maxRetries config")
        case False
        with o s' Inl TRANSIENT
        have "env (snd (retryLoop classify config op attempt w)) = env w @ replicate 1 c"
          by (simp add: retryLoop_exhausted[where e = e and s' = s'])
        then show ?thesis by (intro exI[of _ 1]) simp
      next
        case True
        let ?w1 = "w\<lparr>env := s', op_calls := op_calls w + 1,
                      logs := logs w @ [RetryAttempt attempt e],
                      delays := delays w @ [baseDelay config * 2 ^ attempt]\<rparr>"
        from TRANSIENT have nf: "classify e \<noteq> FATAL" by simp
        from "1.IH"[OF o[symmetric] Inl nf True "1.prems"]
        obtain n where n: "0 < n"
          "env (snd (retryLoop classify config op (attempt + 1) ?w1)) = env ?w1 @ replicate n c"
          by blast
        have step: "retryLoop classify config op attempt w =
                    retryLoop classify config op (attempt + 1) ?w1"
          using o Inl TRANSIENT True by (simp add: retryLoop_retry[where e = e and s' = s'])
        have "env (snd (retryLoop classify config op attempt w)) = env w @ replicate (Suc n) c"
          using n(2) s' by (simp add: step)
        then show ?thesis by (intro exI[of _ "Suc n"]) simp
      qed
    qed
  qed
qed

lemma retryLoop_Inr:
  "retryLoop classify config op a w = (Inr v, w') \<Longrightarrow> \<exists>s. op s = (Inr v, env w')"
proof (induction classify config op a w rule: retryLoop.induct)
  case (1 classify config op attempt w)
  obtain r s' where o: "op (env w) = (r, s')" by (cases "op (env w)")
  show ?case
  proof (cases r)
    case (Inr u)
    with o "1.prems" have "u = v" "env w' = s'"
      by (auto simp: retryLoop_success[where v = u and s' = s'])
    with o Inr show ?thesis by auto
  next
    case (Inl e)
    show ?thesis
    proof (cases "classify e")
      case FATAL
      with o Inl "1.prems" show ?thesis
        by (simp add: retryLoop_fatal[where e = e and s' = s'])
    next
      case TRANSIENT
      show ?thesis
      proof (cases "attempt < maxRetries config")
        case False
        with o Inl TRANSIENT "1.prems" show ?thesis
          by (simp add: retryLoop_exhausted[where e = e and s' = s'])
      next
        case True
        from TRANSIENT have nf: "classify e \<noteq> FATAL" by simp
        have step: "retryLoop classify config op attempt w =
                    retryLoop classify config op (attempt + 1)
                      (w\<lparr>env := s', op_calls := op_calls w + 1,
                         logs := logs w @ [RetryAttempt attempt e],
                         delays := delays w @ [baseDelay config * 2 ^ attempt]\<rparr>)"
          using o Inl TRANSIENT True by (simp add: retryLoop_retry[where e = e and s' = s'])
        show ?thesis
          using "1.IH"[OF o[symmetric] Inl nf True] "1.prems" by (simp add: step)
      qed
    qed
  qed
qed

lemma retryLoop_invokes: "op_calls w < op_calls (snd (retryLoop classify config op a w))"
proof (induction classify config op a w rule: retryLoop.induct)
  case (1 classify config op attempt w)
  obtain r s' where o: "op (env w) = (r, s')" by (cases "op (env w)")
  show ?case
  proof (cases r)
    case (Inr u)
    with o show ?thesis by (simp add: retryLoop_success[where v = u and s' = s'])
  next
    case (Inl e)
    show ?thesis
    proof (cases "classify e")
      case FATAL
      with o Inl show ?thesis by (simp add: retryLoop_fatal[where e = e and s' = s'])
    next
      case TRANSIENT
      show ?thesis
      proof (cases "attempt < maxRetries config")
        case False
        with o Inl TRANSIENT show ?thesis
          by (simp add: retryLoop_exhausted[where e = e and s' = s'])
      next
        case True
        from TRANSIENT have nf: "classify e \<noteq> FATAL" by simp
        have step: "retryLoop classify config op attempt w =
                    retryLoop classify config op (attempt + 1)
                      (w\<lparr>env := s', op_calls := op_calls w + 1,
                         logs := logs w @ [RetryAttempt attempt e],
                         delays := delays w @ [baseDelay config * 2 ^ attempt]\<rparr>)"
          using o Inl TRANSIENT True by (simp add: retryLoop_retry[where e = e and s' = s'])
        show ?thesis
          using "1.IH"[OF o[symmetric] Inl nf True] by (simp add: step)
      qed
    qed
  qed
qed


lemma retry_esCall_env:
  "\<exists>n. 0 < n \<and>
     env (snd (retryTransientEsErrors classify config (esCall client c) w)) =
       env w @ replicate n c"
  unfolding retryTransientEsErrors_def executeWithRetry_def
  by (rule retryLoop_env) (simp add: esCall_def)

lemma issued_retry_esCall:
  "\<exists>n. 0 < n \<and>
     issued w (snd (retryTransientEsErrors classify config (esCall client c) w)) = replicate n c"
  using retry_esCall_env[of classify config client c w] by (auto simp: issued_def)

lemma env_logError [simp]: "env (logError m w) = env w"
  by (simp add: logError_def)

lemma issued_logError [simp]: "issued w (logError m w') = issued w w'"
  by (simp add: issued_def)

lemma retry_esCall_first_ok:
  assumes "transportResult (snd c) (client (env w) c) = Inr ()"
  shows "retryTransientEsErrors classify config (esCall client c) w =
           (Inr (), w\<lparr>env := env w @ [c], op_calls := op_calls w + 1\<rparr>)"
  unfolding retryTransientEsErrors_def executeWithRetry_def
  using assms by (simp add: retryLoop_success[where v = "()" and s' = "env w @ [c]"] esCall_def)

lemma retry_esCall_first_fatal:
  assumes "transportResult (snd c) (client (env w) c) = Inl e" and "classify e = FATAL"
  shows "retryTransientEsErrors classify config (esCall client c) w =
           (Inl e, w\<lparr>env := env w @ [c], op_calls := op_calls w + 1,
                      logs := logs w @ [FatalFailure e]\<rparr>)"
  unfolding retryTransientEsErrors_def executeWithRetry_def
  using assms by (simp add: retryLoop_fatal[where e = e and s' = "env w @ [c]"] esCall_def)

lemma retryTransientEsErrors_invokes:
  "op_calls w < op_calls (snd (retryTransientEsErrors classify config operation w))"
  unfolding retryTransientEsErrors_def executeWithRetry_def by (rule retryLoop_invokes)

section \<open>What the retry loop logs, and recovery within the retry budget\<close>

lemma retryLoop_logs:
  "\<exists>xs. logs (snd (retryLoop classify config op a w)) = logs w @ xs \<and>
        filter fromManager xs = []"
proof (induction classify config op a w rule: retryLoop.induct)
  case (1 classify config op attempt w)
  obtain r s' where o: "op (env w) = (r, s')" by (cases "op (env w)")
  show ?case
  proof (cases r)
    case (Inr v)
    with o show ?thesis by (simp add: retryLoop_success[where v = v and s' = s'])
  next
    case (Inl e)
    show ?thesis
    proof (cases "classify e")
      case FATAL
      with o Inl show ?thesis by (simp add: retryLoop_fatal[where e = e and s' = s'])
    next
      case TRANSIENT
      show ?thesis
      proof (cases "attempt < maxRetries config")
        case False
        with o Inl TRANSIENT show ?thesis
          by (simp add: retryLoop_exhausted[where e = e and s' = s'])
      next
        case True
        let ?w1 = "w\<lparr>env := s', op_calls := op_calls w + 1,
                      logs := logs w @ [RetryAttempt attempt e],
                      delays := delays w @ [baseDelay config * 2 ^ attempt]\<rparr>"
        from TRANSIENT have nf: "classify e \<noteq> FATAL" by simp
        from "1.IH"[OF o[symmetric] Inl nf True]
        obtain xs where xs:
          "logs (snd (retryLoop classify config op (attempt + 1) ?w1)) = logs ?w1 @ xs"
          "filter fromManager xs = []"
          by blast
        have step: "retryLoop classify config op attempt w =
                    retryLoop classify config op (attempt + 1) ?w1"
          using o Inl TRANSIENT True by (simp add: retryLoop_retry[where e = e and s' = s'])
        have "logs (snd (retryLoop classify config op attempt w)) =
                logs w @ (RetryAttempt attempt e # xs)"
          using xs(1) by (simp add: step)
        moreover have "filter fromManager (RetryAttempt attempt e # xs) = []"
          using xs(2) by simp
        ultimately show ?thesis by blast
      qed
    qed
  qed
qed

lemma logged_retry:
  "filter fromManager (logged w (snd (retryTransientEsErrors classify config operation w))) = []"
  using retryLoop_logs[of classify config operation 0 w]
  by (auto simp: logged_def retryTransientEsErrors_def executeWithRetry_def)

lemma logged_after_logError:
  assumes "filter fromManager (logged w w') = []" and "length (logs w) \<le> length (logs w')"
  shows "filter fromManager (logged w (logError text w')) = [Message ERROR text]"
  using assms by (simp add: logged_def logError_def)

lemma retry_logs_grow:
  "length (logs w) \<le> length (logs (snd (retryTransientEsErrors classify config operation w)))"
  using retryLoop_logs[of classify config operation 0 w]
  by (auto simp: retryTransientEsErrors_def executeWithRetry_def)

lemma failure_logged:
  assumes "fst (retryTransientEsErrors classify config operation w) = Inl err"
  shows "filter fromManager
           (logged w (logError text (snd (retryTransientEsErrors classify config operation w)))) =
         [Message ERROR text]"
  by (rule logged_after_logError[OF logged_retry retry_logs_grow])

lemma envBefore_esCall: "envBefore (esCall client c) h k = h @ replicate k c"
  by (induction k) (simp_all add: esCall_def replicate_append_same)

lemma retryLoop_recovers:
  assumes "N \<le> maxRetries config"
    and "\<forall>k<N. failsTransiently classify op (env w) k"
    and "attemptResult op (env w) N = Inr v"
  shows "retryLoop classify config op 0 (w :: 's world) =
           (Inr v,
            \<lparr>env = envBefore op (env w) (N + 1),
             logs = logs w @ map (\<lambda>k. RetryAttempt k (projl (attemptResult op (env w) k))) [0..<N],
             delays = delays w @ map (\<lambda>k. baseDelay config * 2 ^ k) [0..<N],
             op_calls = op_calls w + (N + 1)\<rparr>)"
proof -
  have ok: "op (envBefore op (env w) N) = (Inr v, envBefore op (env w) (Suc N))"
    using assms(3) by (cases "op (envBefore op (env w) N)") (simp add: attemptResult_def)
  show ?thesis
    using ok
    by (subst retryLoop_prefix_world[OF assms(2) assms(1)])
       (subst retryLoop_success[where v = v and s' = "envBefore op (env w) (Suc N)"], simp_all)
qed

lemma failed_call:
  assumes "fst (retryTransientEsErrors classify config operation w) = Inl err"
    and "result =
           (case retryTransientEsErrors classify config operation w of
              (Inl e, w') \<Rightarrow> (Inl e, logError msg w')
            | (Inr u, w') \<Rightarrow> (Inr x, w'))"
  shows "fst result = Inl err \<and>
         snd result =
           (snd (retryTransientEsErrors classify config operation w))
           \<lparr>logs := logs (snd (retryTransientEsErrors classify config operation w)) @
              [Message ERROR msg]\<rparr> \<and>
         filter fromManager (logged w (snd result)) = [Message ERROR msg]"
proof -
  let ?R = "retryTransientEsErrors classify config operation w"
  have r: "result = (Inl err, logError msg (snd ?R))"
    using assms by (cases ?R) auto
  have "filter fromManager (logged w (logError msg (snd ?R))) = [Message ERROR msg]"
    using assms(1) by (rule failure_logged)
  with r show ?thesis by (simp add: logError_def)
qed

section \<open>The retry policy: exhaustion, recovery, fatal failure\<close>

text \<open>
  C2.  Whatever the operation and the configuration, when each of the
  \<open>maxRetries + 1\<close> invocations fails with an error classified as transient,
  \<open>executeWithRetry\<close> invokes the operation exactly \<open>maxRetries + 1\<close> times and returns
  \<open>RetriesExhaustedError\<close> around the error of the last invocation.  The caller tells
  this outcome from a fatal one by the wrapper (\<open>retriesExhausted\<close>); every retry made
  on the way was logged and waited for.
\<close>

theorem executeWithRetry_retries_exhausted:
  assumes "\<forall>k\<le>maxRetries config. failsTransiently classify op (env w) k"
  shows "executeWithRetry classify op config (w :: 's world) =
           (Inl (RetriesExhaustedError (projl (attemptResult op (env w) (maxRetries config)))),
            \<lparr>env = envBefore op (env w) (maxRetries config + 1),
             logs = logs w @ map (\<lambda>k. RetryAttempt k (projl (attemptResult op (env w) k)))
                                 [0..<maxRetries config],
             delays = delays w @ map (\<lambda>k. baseDelay config * 2 ^ k) [0..<maxRetries config],
             op_calls = op_calls w + (maxRetries config + 1)\<rparr>) \<and>
         retriesExhausted
           (RetriesExhaustedError (projl (attemptResult op (env w) (maxRetries config)))) \<and>
         classify (projl (attemptResult op (env w) (maxRetries config))) = TRANSIENT"
proof -
  let ?M = "maxRetries config"
  have pre: "\<forall>k<?M. failsTransiently classify op (env w) k" using assms by simp
  have last: "failsTransiently classify op (env w) ?M" using assms by simp
  have "executeWithRetry classify op config w =
           (Inl (RetriesExhaustedError (projl (attemptResult op (env w) ?M))),
            \<lparr>env = envBefore op (env w) (?M + 1),
             logs = logs w @ map (\<lambda>k. RetryAttempt k (projl (attemptResult op (env w) k))) [0..<?M],
             delays = delays w @ map (\<lambda>k. baseDelay config * 2 ^ k) [0..<?M],
             op_calls = op_calls w + (?M + 1)\<rparr>)"
    unfolding executeWithRetry_def
    using failsTransientlyD[OF last]
    by (subst retryLoop_prefix_world[OF pre order_refl])
       (subst retryLoop_exhausted[where e = "projl (attemptResult op (env w) ?M)"
            and s' = "envBefore op (env w) (Suc ?M)"], simp_all)
  with failsTransientlyD[OF last] show ?thesis by simp
qed

theorem executeWithRetry_retries_exhausted_witness:
  "executeWithRetry exampleClassify (esCall (\<lambda>h c. Unreachable) (PreviewTransform ''job-3'', []))
     exampleConfig emptyWorld =
   (Inl (RetriesExhaustedError ConnectionError),
    \<lparr>env = [(PreviewTransform ''job-3'', []), (PreviewTransform ''job-3'', []),
            (PreviewTransform ''job-3'', []), (PreviewTransform ''job-3'', [])],
     logs = [RetryAttempt 0 ConnectionError, RetryAttempt 1 ConnectionError,
             RetryAttempt 2 ConnectionError],
     delays = [100, 200, 400], op_calls = 4\<rparr>)"
proof -
  have h: "\<forall>k\<le>maxRetries exampleConfig.
             failsTransiently exampleClassify
               (esCall (\<lambda>h c. Unreachable) (PreviewTransform ''job-3'', [])) (env emptyWorld) k"
    by (simp add: failsTransiently_def attemptResult_def esCall_def transportResult_def)
  show ?thesis
    using executeWithRetry_retries_exhausted[OF h]
    by (simp add: emptyWorld_def exampleConfig_def attemptResult_def esCall_def
          transportResult_def eval_nat_numeral)
qed

text \<open>
  C3.  When the first \<open>N\<close> invocations fail with transient errors, \<open>N < maxRetries\<close>,
  and invocation \<open>N + 1\<close> succeeds, \<open>executeWithRetry\<close> returns that success after
  \<open>N + 1\<close> invocations.  It has logged exactly \<open>N\<close> retries, retry \<open>k\<close> with its attempt
  count \<open>k\<close> and the error that caused it, and has waited \<open>baseDelay * 2 ^ k\<close> before it
  (attempts are counted from 0).
\<close>

theorem executeWithRetry_succeeds_after_transient:
  assumes "N < maxRetries config"
    and "\<forall>k<N. failsTransiently classify op (env w) k"
    and "attemptResult op (env w) N = Inr v"
  shows "executeWithRetry classify op config (w :: 's world) =
           (Inr v,
            \<lparr>env = envBefore op (env w) (N + 1),
             logs = logs w @ map (\<lambda>k. RetryAttempt k (projl (attemptResult op (env w) k))) [0..<N],
             delays = delays w @ map (\<lambda>k. baseDelay config * 2 ^ k) [0..<N],
             op_calls = op_calls w + (N + 1)\<rparr>)"
proof -
  have le: "N \<le> maxRetries config" using assms(1) by simp
  have ok: "op (envBefore op (env w) N) = (Inr v, envBefore op (env w) (Suc N))"
    using assms(3) by (cases "op (envBefore op (env w) N)") (simp add: attemptResult_def)
  show ?thesis
    unfolding executeWithRetry_def
    using ok
    by (subst retryLoop_prefix_world[OF assms(2) le])
       (subst retryLoop_success[where v = v and s' = "envBefore op (env w) (Suc N)"], simp_all)
qed

theorem executeWithRetry_succeeds_after_transient_witness:
  "executeWithRetry exampleClassify (esCall flakyClient (PreviewTransform ''job-3'', []))
     exampleConfig emptyWorld =
   (Inr (),
    \<lparr>env = [(PreviewTransform ''job-3'', []), (PreviewTransform ''job-3'', []),
            (PreviewTransform ''job-3'', [])],
     logs = [RetryAttempt 0 ConnectionError, RetryAttempt 1 ConnectionError],
     delays = [100, 200], op_calls = 3\<rparr>)"
proof -
  let ?op = "esCall flakyClient (PreviewTransform ''job-3'', [])"
  have n: "(2::nat) < maxRetries exampleConfig" by (simp add: exampleConfig_def)
  have h: "\<forall>k<2. failsTransiently exampleClassify ?op (env emptyWorld) k"
    by (simp add: failsTransiently_def attemptResult_def esCall_def transportResult_def
          flakyClient_def emptyWorld_def eval_nat_numeral All_less_Suc)
  have ok: "attemptResult ?op (env emptyWorld) 2 = Inr ()"
    by (simp add: attemptResult_def esCall_def transportResult_def
          flakyClient_def emptyWorld_def eval_nat_numeral)
  show ?thesis
    using executeWithRetry_succeeds_after_transient[OF n h ok]
    by (simp add: emptyWorld_def exampleConfig_def attemptResult_def esCall_def
          transportResult_def flakyClient_def eval_nat_numeral)
qed

text \<open>
  C4.  When the first invocation fails with an error classified as fatal,
  \<open>executeWithRetry\<close> invokes the operation exactly once, waits for nothing, retries
  nothing, and returns that very error, having logged one entry, at error severity.
\<close>

theorem executeWithRetry_fatal_not_retried:
  assumes "attemptResult op (env w) 0 = Inl e" and "classify e = FATAL"
  shows "executeWithRetry classify op config (w :: 's world) =
           (Inl e,
            \<lparr>env = envBefore op (env w) 1,
             logs = logs w @ [FatalFailure e],
             delays = delays w,
             op_calls = op_calls w + 1\<rparr>) \<and> severity (FatalFailure e) = ERROR"
proof -
  have "op (env w) = (Inl e, envBefore op (env w) 1)"
    using assms(1) by (cases "op (env w)") (simp add: attemptResult_def)
  then show ?thesis
    unfolding executeWithRetry_def using assms(2)
    by (simp add: retryLoop_fatal[where e = e and s' = "envBefore op (env w) 1"])
qed

theorem executeWithRetry_fatal_not_retried_witness:
  "executeWithRetry exampleClassify
     (esCall (\<lambda>h c. ErrorStatus 400) (PreviewTransform ''job-3'', [])) exampleConfig emptyWorld =
   (Inl (ResponseError 400),
    \<lparr>env = [(PreviewTransform ''job-3'', [])], logs = [FatalFailure (ResponseError 400)],
     delays = [], op_calls = 1\<rparr>)"
proof -
  let ?op = "esCall (\<lambda>h c. ErrorStatus 400) (PreviewTransform ''job-3'', [])"
  have a: "attemptResult ?op (env emptyWorld) 0 = Inl (ResponseError 400)"
    by (simp add: attemptResult_def esCall_def transportResult_def)
  have f: "exampleClassify (ResponseError 400) = FATAL" by simp
  show ?thesis
    using executeWithRetry_fatal_not_retried[where classify = exampleClassify and op = ?op
          and w = emptyWorld and e = "ResponseError 400" and config = exampleConfig, OF a f]
    by (simp add: emptyWorld_def esCall_def)
qed

section \<open>The transform manager: unsupported indicator types\<close>

text \<open>
  C1.  When the generator registry has no entry for the indicator type of the SLO,
  \<open>install\<close> fails with \<open>Error\<close> carrying the message
  \<^verbatim>\<open>Unsupported indicator type [<type>]\<close>.  Nothing is sent to the backend, no operation
  is handed to the retry wrapper (which would invoke it at least once, see
  \<open>retryTransientEsErrors_invokes\<close>), nothing is waited for, and the log grows by exactly
  one entry, at error severity.
\<close>

theorem install_unsupported_indicator_type:
  assumes "generators this (type (indicator slo)) = None"
  shows "install classify config this slo w =
           (Inl (Error (''Unsupported indicator type ['' @ type (indicator slo) @ '']'')),
            w\<lparr>logs := logs w @
               [Message ERROR (''No transform generator found for indicator type ['' @
                               type (indicator slo) @ '']'')]\<rparr>) \<and>
         issued w (snd (install classify config this slo w)) = [] \<and>
         op_calls (snd (install classify config this slo w)) = op_calls w \<and>
         delays (snd (install classify config this slo w)) = delays w"
  using assms by (simp add: install_def logError_def issued_def)

theorem install_unsupported_indicator_type_witness:
  "install exampleClassify exampleConfig (exampleManager (\<lambda>h c. Ok))
     \<lparr>indicator = \<lparr>type = ''X''\<rparr>\<rparr> emptyWorld =
   (Inl (Error ''Unsupported indicator type [X]''),
    \<lparr>env = [], logs = [Message ERROR ''No transform generator found for indicator type [X]''],
     delays = [], op_calls = 0\<rparr>)"
proof -
  have h: "generators (exampleManager (\<lambda>h c. Ok))
             (type (indicator \<lparr>indicator = \<lparr>type = ''X''\<rparr>\<rparr>)) = None"
    by (simp add: exampleManager_def)
  show ?thesis
    using install_unsupported_indicator_type[OF h, of exampleClassify exampleConfig emptyWorld]
    by (simp add: emptyWorld_def)
qed

section \<open>The transform manager: ignorable outcomes\<close>

text \<open>
  C5.  When the backend answers the start call with the conflict status 409, \<open>start\<close>
  succeeds: one call has been sent, nothing was retried, waited for or logged.
\<close>

theorem start_conflict_is_success:
  assumes "esClient this (env w) (StartTransform transformId, [409]) = ErrorStatus 409"
  shows "start classify config this transformId w =
           (Inr (), w\<lparr>env := env w @ [(StartTransform transformId, [409])],
                       op_calls := op_calls w + 1\<rparr>)"
proof -
  have "transportResult (snd (StartTransform transformId, [409]))
          (esClient this (env w) (StartTransform transformId, [409])) = Inr ()"
    using assms by (simp add: transportResult_def)
  from retry_esCall_first_ok[where c = "(StartTransform transformId, [409])"
         and client = "esClient this" and w = w, OF this]
  show ?thesis
    by (simp add: start_def)
qed

theorem start_conflict_is_success_witness:
  "start exampleClassify exampleConfig (exampleManager (\<lambda>h c. ErrorStatus 409)) ''job-1''
     emptyWorld =
   (Inr (), \<lparr>env = [(StartTransform ''job-1'', [409])], logs = [], delays = [], op_calls = 1\<rparr>)"
proof -
  have h: "esClient (exampleManager (\<lambda>h c. ErrorStatus 409)) (env emptyWorld)
             (StartTransform ''job-1'', [409]) = ErrorStatus 409"
    by (simp add: exampleManager_def)
  show ?thesis
    using start_conflict_is_success[OF h, of exampleClassify exampleConfig]
    by (simp add: emptyWorld_def)
qed

text \<open>
  C6.  When the backend answers the stop call, respectively the delete call, with the
  not-found status 404, \<open>stop\<close>, respectively \<open>uninstall\<close>, succeeds after that one call:
  the absence of the transform is not a failure of either operation.
\<close>

theorem stop_uninstall_not_found_is_success:
  "(esClient this (env w) (StopTransform transformId True True, [404]) = ErrorStatus 404 \<longrightarrow>
      stop classify config this transformId w =
        (Inr (), w\<lparr>env := env w @ [(StopTransform transformId True True, [404])],
                    op_calls := op_calls w + 1\<rparr>)) \<and>
   (esClient this (env w) (DeleteTransform transformId True, [404]) = ErrorStatus 404 \<longrightarrow>
      uninstall classify config this transformId w =
        (Inr (), w\<lparr>env := env w @ [(DeleteTransform transformId True, [404])],
                    op_calls := op_calls w + 1\<rparr>))"
proof (intro conjI impI)
  assume "esClient this (env w) (StopTransform transformId True True, [404]) = ErrorStatus 404"
  then have "transportResult (snd (StopTransform transformId True True, [404]))
          (esClient this (env w) (StopTransform transformId True True, [404])) = Inr ()"
    by (simp add: transportResult_def)
  from retry_esCall_first_ok[where c = "(StopTransform transformId True True, [404])"
         and client = "esClient this" and w = w, OF this]
  show "stop classify config this transformId w =
        (Inr (), w\<lparr>env := env w @ [(StopTransform transformId True True, [404])],
                    op_calls := op_calls w + 1\<rparr>)"
    by (simp add: stop_def)
next
  assume "esClient this (env w) (DeleteTransform transformId True, [404]) = ErrorStatus 404"
  then have "transportResult (snd (DeleteTransform transformId True, [404]))
          (esClient this (env w) (DeleteTransform transformId True, [404])) = Inr ()"
    by (simp add: transportResult_def)
  from retry_esCall_first_ok[where c = "(DeleteTransform transformId True, [404])"
         and client = "esClient this" and w = w, OF this]
  show "uninstall classify config this transformId w =
        (Inr (), w\<lparr>env := env w @ [(DeleteTransform transformId True, [404])],
                    op_calls := op_calls w + 1\<rparr>)"
    by (simp add: uninstall_def)
qed

theorem stop_uninstall_not_found_is_success_witness:
  "stop exampleClassify exampleConfig (exampleManager (\<lambda>h c. ErrorStatus 404)) ''job-2''
     emptyWorld =
   (Inr (), \<lparr>env = [(StopTransform ''job-2'' True True, [404])], logs = [], delays = [],
             op_calls = 1\<rparr>) \<and>
   uninstall exampleClassify exampleConfig (exampleManager (\<lambda>h c. ErrorStatus 404)) ''job-2''
     emptyWorld =
   (Inr (), \<lparr>env = [(DeleteTransform ''job-2'' True, [404])], logs = [], delays = [],
             op_calls = 1\<rparr>)"
  using stop_uninstall_not_found_is_success[of "exampleManager (\<lambda>h c. ErrorStatus 404)"
           emptyWorld "''job-2''" exampleClassify exampleConfig]
  by (simp add: emptyWorld_def exampleManager_def)

section \<open>The transform manager: failures are logged and passed on\<close>

text \<open>
  C7, as the code has it.  Whenever the retried backend call of a lifecycle operation
  ends in an error (an outcome on the call's \<^verbatim>\<open>ignore\<close> list never does: it resolves),
  the operation fails with that same error, and over the whole operation the manager
  has written exactly one log entry of its own, at error severity:
  \<^verbatim>\<open>Cannot create SLO transform for indicator type [<type>]\<close> for \<open>install\<close>, and
  \<^verbatim>\<open>Cannot preview|start|stop|delete SLO transform [<id>]\<close> for \<open>preview\<close>, \<open>start\<close>,
  \<open>stop\<close> and \<open>uninstall\<close>.  The entries of the retry policy are apart from it.  An
  error thrown by the generator in \<open>install\<close> is passed on too, but with the state,
  the log included, left as it was.
\<close>

theorem backend_failure_logged_once_and_rethrown:
  "(generators this (type (indicator slo)) = Some generator \<and>
    getTransformParams generator slo = Inr transformParams \<and>
    fst (retryTransientEsErrors classify config
             (esCall (esClient this) (PutTransform transformParams, [])) w) = Inl err \<longrightarrow>
      fst (install classify config this slo w) = Inl err \<and>
      snd (install classify config this slo w) =
        (snd (retryTransientEsErrors classify config
             (esCall (esClient this) (PutTransform transformParams, [])) w))
        \<lparr>logs := logs (snd (retryTransientEsErrors classify config
             (esCall (esClient this) (PutTransform transformParams, [])) w)) @
           [Message ERROR (''Cannot create SLO transform for indicator type ['' @
                          type (indicator slo) @ '']'')]\<rparr> \<and>
      filter fromManager (logged w (snd (install classify config this slo w))) =
        [Message ERROR (''Cannot create SLO transform for indicator type ['' @
                          type (indicator slo) @ '']'')]) \<and>
   (fst (retryTransientEsErrors classify config
             (esCall (esClient this) (PreviewTransform transformId, [])) w) = Inl err \<longrightarrow>
      fst (preview classify config this transformId w) = Inl err \<and>
      snd (preview classify config this transformId w) =
        (snd (retryTransientEsErrors classify config
             (esCall (esClient this) (PreviewTransform transformId, [])) w))
        \<lparr>logs := logs (snd (retryTransientEsErrors classify config
             (esCall (esClient this) (PreviewTransform transformId, [])) w)) @
           [Message ERROR (''Cannot preview SLO transform ['' @ transformId @ '']'')]\<rparr> \<and>
      filter fromManager (logged w (snd (preview classify config this transformId w))) =
        [Message ERROR (''Cannot preview SLO transform ['' @ transformId @ '']'')]) \<and>
   (fst (retryTransientEsErrors classify config
             (esCall (esClient this) (StartTransform transformId, [409])) w) = Inl err \<longrightarrow>
      fst (start classify config this transformId w) = Inl err \<and>
      snd (start classify config this transformId w) =
        (snd (retryTransientEsErrors classify config
             (esCall (esClient this) (StartTransform transformId, [409])) w))
        \<lparr>logs := logs (snd (retryTransientEsErrors classify config
             (esCall (esClient this) (StartTransform transformId, [409])) w)) @
           [Message ERROR (''Cannot start SLO transform ['' @ transformId @ '']'')]\<rparr> \<and>
      filter fromManager (logged w (snd (start classify config this transformId w))) =
        [Message ERROR (''Cannot start SLO transform ['' @ transformId @ '']'')]) \<and>
   (fst (retryTransientEsErrors classify config
             (esCall (esClient this) (StopTransform transformId True True, [404])) w) = Inl err \<longrightarrow>
      fst (stop classify config this transformId w) = Inl err \<and>
      snd (stop classify config this transformId w) =
        (snd (retryTransientEsErrors classify config
             (esCall (esClient this) (StopTransform transformId True True, [404])) w))
        \<lparr>logs := logs (snd (retryTransientEsErrors classify config
             (esCall (esClient this) (StopTransform transformId True True, [404])) w)) @
           [Message ERROR (''Cannot stop SLO transform ['' @ transformId @ '']'')]\<rparr> \<and>
      filter fromManager (logged w (snd (stop classify config this transformId w))) =
        [Message ERROR (''Cannot stop SLO transform ['' @ transformId @ '']'')]) \<and>
   (fst (retryTransientEsErrors classify config
             (esCall (esClient this) (DeleteTransform transformId True, [404])) w) = Inl err \<longrightarrow>
      fst (uninstall classify config this transformId w) = Inl err \<and>
      snd (uninstall classify config this transformId w) =
        (snd (retryTransientEsErrors classify config
             (esCall (esClient this) (DeleteTransform transformId True, [404])) w))
        \<lparr>logs := logs (snd (retryTransientEsErrors classify config
             (esCall (esClient this) (DeleteTransform transformId True, [404])) w)) @
           [Message ERROR (''Cannot delete SLO transform ['' @ transformId @ '']'')]\<rparr> \<and>
      filter fromManager (logged w (snd (uninstall classify config this transformId w))) =
        [Message ERROR (''Cannot delete SLO transform ['' @ transformId @ '']'')]) \<and>
   (generators this (type (indicator slo)) = Some generator \<and>
    getTransformParams generator slo = Inl thrown \<longrightarrow>
      install classify config this slo w = (Inl thrown, w))"
  apply (intro conjI)
  subgoal
    by (rule impI, elim conjE,
        rule failed_call[where x = "transform_id transformParams"], assumption,
        simp add: install_def)
  subgoal by (rule impI, rule failed_call[where x = "()"], assumption, simp add: preview_def)
  subgoal by (rule impI, rule failed_call[where x = "()"], assumption, simp add: start_def)
  subgoal by (rule impI, rule failed_call[where x = "()"], assumption, simp add: stop_def)
  subgoal by (rule impI, rule failed_call[where x = "()"], assumption, simp add: uninstall_def)
  subgoal by (simp add: install_def)
  done

theorem backend_failure_logged_once_and_rethrown_witness:
  "fst (install exampleClassify exampleConfig (exampleManager (\<lambda>h c. ErrorStatus 400))
          \<lparr>indicator = \<lparr>type = ''sli.kql.custom''\<rparr>\<rparr> emptyWorld) = Inl (ResponseError 400) \<and>
   filter fromManager (logged emptyWorld
     (snd (install exampleClassify exampleConfig (exampleManager (\<lambda>h c. ErrorStatus 400))
             \<lparr>indicator = \<lparr>type = ''sli.kql.custom''\<rparr>\<rparr> emptyWorld))) =
     [Message ERROR ''Cannot create SLO transform for indicator type [sli.kql.custom]''] \<and>
   fst (preview exampleClassify exampleConfig (exampleManager (\<lambda>h c. ErrorStatus 400)) ''job-3''
          emptyWorld) = Inl (ResponseError 400) \<and>
   filter fromManager (logged emptyWorld
     (snd (preview exampleClassify exampleConfig (exampleManager (\<lambda>h c. ErrorStatus 400))
             ''job-3'' emptyWorld))) =
     [Message ERROR ''Cannot preview SLO transform [job-3]''] \<and>
   fst (start exampleClassify exampleConfig (exampleManager (\<lambda>h c. ErrorStatus 400)) ''job-3''
          emptyWorld) = Inl (ResponseError 400) \<and>
   filter fromManager (logged emptyWorld
     (snd (start exampleClassify exampleConfig (exampleManager (\<lambda>h c. ErrorStatus 400))
             ''job-3'' emptyWorld))) =
     [Message ERROR ''Cannot start SLO transform [job-3]''] \<and>
   fst (stop exampleClassify exampleConfig (exampleManager (\<lambda>h c. ErrorStatus 400)) ''job-3''
          emptyWorld) = Inl (ResponseError 400) \<and>
   filter fromManager (logged emptyWorld
     (snd (stop exampleClassify exampleConfig (exampleManager (\<lambda>h c. ErrorStatus 400))
             ''job-3'' emptyWorld))) =
     [Message ERROR ''Cannot stop SLO transform [job-3]''] \<and>
   fst (uninstall exampleClassify exampleConfig (exampleManager (\<lambda>h c. ErrorStatus 400)) ''job-3''
          emptyWorld) = Inl (ResponseError 400) \<and>
   filter fromManager (logged emptyWorld
     (snd (uninstall exampleClassify exampleConfig (exampleManager (\<lambda>h c. ErrorStatus 400))
             ''job-3'' emptyWorld))) =
     [Message ERROR ''Cannot delete SLO transform [job-3]''] \<and>
   install exampleClassify exampleConfig (exampleManager (\<lambda>h c. ErrorStatus 400))
     \<lparr>indicator = \<lparr>type = ''sli.apm.transactionDuration''\<rparr>\<rparr> emptyWorld =
     (Inl (Error ''Invalid KQL''), emptyWorld)"
proof -
  let ?mgr = "exampleManager (\<lambda>h c. ErrorStatus 400)"
  have g: "generators ?mgr ''sli.kql.custom'' = Some exampleGenerator"
    by (simp add: exampleManager_def)
  have p: "getTransformParams exampleGenerator \<lparr>indicator = \<lparr>type = ''sli.kql.custom''\<rparr>\<rparr> =
             Inr \<lparr>transform_id = ''slo-sli.kql.custom'', body = ''{}''\<rparr>"
    by (simp add: exampleGenerator_def)
  have g': "generators ?mgr ''sli.apm.transactionDuration'' = Some rejectingGenerator"
    by (simp add: exampleManager_def)
  have p': "getTransformParams rejectingGenerator
              \<lparr>indicator = \<lparr>type = ''sli.apm.transactionDuration''\<rparr>\<rparr> = Inl (Error ''Invalid KQL'')"
    by (simp add: rejectingGenerator_def)
  have r: "fst (retryTransientEsErrors exampleClassify exampleConfig (esCall (esClient ?mgr) c)
                  emptyWorld) = Inl (ResponseError 400)" if "400 \<notin> set (snd c)" for c
    using that
    by (subst retry_esCall_first_fatal[where e = "ResponseError 400"])
       (simp_all add: transportResult_def exampleManager_def)
  note T = backend_failure_logged_once_and_rethrown[where this = ?mgr and slo = "\<lparr>indicator = \<lparr>type = ''sli.kql.custom''\<rparr>\<rparr>"
        and generator = exampleGenerator
        and transformParams = "\<lparr>transform_id = ''slo-sli.kql.custom'', body = ''{}''\<rparr>"
        and classify = exampleClassify and config = exampleConfig and w = emptyWorld
        and transformId = "''job-3''" and err = "ResponseError 400"]
  note U = backend_failure_logged_once_and_rethrown[where this = ?mgr
        and slo = "\<lparr>indicator = \<lparr>type = ''sli.apm.transactionDuration''\<rparr>\<rparr>"
        and generator = rejectingGenerator and thrown = "Error ''Invalid KQL''"
        and classify = exampleClassify and config = exampleConfig and w = emptyWorld]
  have h1: "generators ?mgr (type (indicator \<lparr>indicator = \<lparr>type = ''sli.kql.custom''\<rparr>\<rparr>)) =
              Some exampleGenerator \<and>
            getTransformParams exampleGenerator \<lparr>indicator = \<lparr>type = ''sli.kql.custom''\<rparr>\<rparr> =
              Inr \<lparr>transform_id = ''slo-sli.kql.custom'', body = ''{}''\<rparr> \<and>
            fst (retryTransientEsErrors exampleClassify exampleConfig
                   (esCall (esClient ?mgr)
                      (PutTransform \<lparr>transform_id = ''slo-sli.kql.custom'', body = ''{}''\<rparr>, []))
                   emptyWorld) = Inl (ResponseError 400)"
    by (simp add: g p r)
  have h6: "generators ?mgr
              (type (indicator \<lparr>indicator = \<lparr>type = ''sli.apm.transactionDuration''\<rparr>\<rparr>)) =
              Some rejectingGenerator \<and>
            getTransformParams rejectingGenerator
              \<lparr>indicator = \<lparr>type = ''sli.apm.transactionDuration''\<rparr>\<rparr> = Inl (Error ''Invalid KQL'')"
    by (simp add: g' p')
  have r2: "fst (retryTransientEsErrors exampleClassify exampleConfig
                   (esCall (esClient ?mgr) (PreviewTransform ''job-3'', [])) emptyWorld) =
            Inl (ResponseError 400)" by (simp add: r)
  have r3: "fst (retryTransientEsErrors exampleClassify exampleConfig
                   (esCall (esClient ?mgr) (StartTransform ''job-3'', [409])) emptyWorld) =
            Inl (ResponseError 400)" by (simp add: r)
  have r4: "fst (retryTransientEsErrors exampleClassify exampleConfig
                   (esCall (esClient ?mgr) (StopTransform ''job-3'' True True, [404])) emptyWorld) =
            Inl (ResponseError 400)" by (simp add: r)
  have r5: "fst (retryTransientEsErrors exampleClassify exampleConfig
                   (esCall (esClient ?mgr) (DeleteTransform ''job-3'' True, [404])) emptyWorld) =
            Inl (ResponseError 400)" by (simp add: r)
  note a1 = T[THEN conjunct1, THEN mp, OF h1]
  note a2 = T[THEN conjunct2, THEN conjunct1, THEN mp, OF r2]
  note a3 = T[THEN conjunct2, THEN conjunct2, THEN conjunct1, THEN mp, OF r3]
  note a4 = T[THEN conjunct2, THEN conjunct2, THEN conjunct2, THEN conjunct1, THEN mp, OF r4]
  note a5 = T[THEN conjunct2, THEN conjunct2, THEN conjunct2, THEN conjunct2, THEN conjunct1,
              THEN mp, OF r5]
  note a6 = U[THEN conjunct2, THEN conjunct2, THEN conjunct2, THEN conjunct2, THEN conjunct2,
              THEN mp, OF h6]
  show ?thesis
    using a1[THEN conjunct1] a1[THEN conjunct2, THEN conjunct2]
      a2[THEN conjunct1] a2[THEN conjunct2, THEN conjunct2]
      a3[THEN conjunct1] a3[THEN conjunct2, THEN conjunct2]
      a4[THEN conjunct1] a4[THEN conjunct2, THEN conjunct2]
      a5[THEN conjunct1] a5[THEN conjunct2, THEN conjunct2] a6
    by simp
qed

text \<open>
  The stronger reading, every error of every operation logged once by the manager,
  fails at the generator: \<open>install\<close> with a generator that rejects the SLO
  returns the generator's error and logs nothing.
\<close>

theorem install_generator_error_not_logged:
  "install exampleClassify exampleConfig (exampleManager (\<lambda>h c. Ok))
     \<lparr>indicator = \<lparr>type = ''sli.apm.transactionDuration''\<rparr>\<rparr> emptyWorld =
   (Inl (Error ''Invalid KQL''), \<lparr>env = [], logs = [], delays = [], op_calls = 0\<rparr>)"
  by (simp add: install_def exampleManager_def rejectingGenerator_def emptyWorld_def)

section \<open>The transform manager: what install returns\<close>

text \<open>
  C8.  Let a generator be registered for the indicator type of the SLO and produce the
  parameters \<open>transformParams\<close> for it.  When the put request is answered with success,
  at once or after \<open>N \<le> maxRetries\<close> transient failures, \<open>install\<close> returns the
  \<open>transform_id\<close> of these parameters, having sent the put \<open>N + 1\<close> times.  Conversely,
  whenever \<open>install\<close> returns an id, it is that \<open>transform_id\<close>, and the last call sent
  was the put of these parameters, answered with success.
\<close>

theorem install_returns_generated_transform_id:
  assumes "generators this (type (indicator slo)) = Some generator"
    and "getTransformParams generator slo = Inr transformParams"
  shows "(N \<le> maxRetries config \<and>
          (\<forall>k<N. failsTransiently classify
                    (esCall (esClient this) (PutTransform transformParams, [])) (env w) k) \<and>
          esClient this (env w @ replicate N (PutTransform transformParams, []))
            (PutTransform transformParams, []) = Ok \<longrightarrow>
          install classify config this slo w =
            (Inr (transform_id transformParams),
             \<lparr>env = env w @ replicate (N + 1) (PutTransform transformParams, []),
              logs = logs w @
                map (\<lambda>k. RetryAttempt k
                       (projl (attemptResult
                          (esCall (esClient this) (PutTransform transformParams, [])) (env w) k)))
                    [0..<N],
              delays = delays w @ map (\<lambda>k. baseDelay config * 2 ^ k) [0..<N],
              op_calls = op_calls w + (N + 1)\<rparr>)) \<and>
         (install classify config this slo w = (Inr transformId, w') \<longrightarrow>
          transformId = transform_id transformParams \<and>
          (\<exists>history. env w' = history @ [(PutTransform transformParams, [])] \<and>
             esClient this history (PutTransform transformParams, []) = Ok))"
proof (rule conjI[OF impI impI])
  let ?c = "(PutTransform transformParams, [])"
  let ?op = "esCall (esClient this) ?c"
  assume a: "N \<le> maxRetries config \<and>
          (\<forall>k<N. failsTransiently classify ?op (env w) k) \<and>
          esClient this (env w @ replicate N ?c) ?c = Ok"
  then have ok: "attemptResult ?op (env w) N = Inr ()"
    by (simp add: attemptResult_def envBefore_esCall esCall_def transportResult_def)
  from a have "retryLoop classify config ?op 0 w =
           (Inr (),
            \<lparr>env = envBefore ?op (env w) (N + 1),
             logs = logs w @ map (\<lambda>k. RetryAttempt k (projl (attemptResult ?op (env w) k))) [0..<N],
             delays = delays w @ map (\<lambda>k. baseDelay config * 2 ^ k) [0..<N],
             op_calls = op_calls w + (N + 1)\<rparr>)"
    by (intro retryLoop_recovers ok) simp_all
  moreover have "envBefore ?op (env w) (N + 1) = env w @ replicate (N + 1) ?c"
    by (rule envBefore_esCall)
  ultimately show "install classify config this slo w =
            (Inr (transform_id transformParams),
             \<lparr>env = env w @ replicate (N + 1) ?c,
              logs = logs w @
                map (\<lambda>k. RetryAttempt k (projl (attemptResult ?op (env w) k))) [0..<N],
              delays = delays w @ map (\<lambda>k. baseDelay config * 2 ^ k) [0..<N],
              op_calls = op_calls w + (N + 1)\<rparr>)"
    using assms
    by (simp add: install_def retryTransientEsErrors_def executeWithRetry_def)
next
  let ?c = "(PutTransform transformParams, [])"
  let ?r = "retryTransientEsErrors classify config (esCall (esClient this) ?c) w"
  assume i: "install classify config this slo w = (Inr transformId, w')"
  obtain r w1 where r: "?r = (r, w1)" by (cases ?r)
  with assms i have ok: "r = Inr ()" "w' = w1"
    and tid: "transformId = transform_id transformParams"
    by (auto simp: install_def split: sum.splits)
  from r ok have "retryLoop classify config (esCall (esClient this) ?c) 0 w = (Inr (), w')"
    by (simp add: retryTransientEsErrors_def executeWithRetry_def)
  from retryLoop_Inr[OF this] obtain h where h: "esCall (esClient this) ?c h = (Inr (), env w')"
    by blast
  then have "env w' = h @ [?c]" "esClient this h ?c = Ok"
    by (auto simp: esCall_def transportResult_def split: es_reply.splits if_splits)
  with tid show "transformId = transform_id transformParams \<and>
          (\<exists>history. env w' = history @ [(PutTransform transformParams, [])] \<and>
             esClient this history (PutTransform transformParams, []) = Ok)" by blast
qed

theorem install_returns_generated_transform_id_witness:
  "install exampleClassify exampleConfig (exampleManager flakyClient)
     \<lparr>indicator = \<lparr>type = ''sli.kql.custom''\<rparr>\<rparr> emptyWorld =
   (Inr ''slo-sli.kql.custom'',
    \<lparr>env = [(PutTransform \<lparr>transform_id = ''slo-sli.kql.custom'', body = ''{}''\<rparr>, []),
            (PutTransform \<lparr>transform_id = ''slo-sli.kql.custom'', body = ''{}''\<rparr>, []),
            (PutTransform \<lparr>transform_id = ''slo-sli.kql.custom'', body = ''{}''\<rparr>, [])],
     logs = [RetryAttempt 0 ConnectionError, RetryAttempt 1 ConnectionError],
     delays = [100, 200], op_calls = 3\<rparr>)"
proof -
  let ?mgr = "exampleManager flakyClient"
  let ?slo = "\<lparr>indicator = \<lparr>type = ''sli.kql.custom''\<rparr>\<rparr>"
  let ?params = "\<lparr>transform_id = ''slo-sli.kql.custom'', body = ''{}''\<rparr>"
  let ?op = "esCall (esClient ?mgr) (PutTransform ?params, [])"
  have g: "generators ?mgr (type (indicator ?slo)) = Some exampleGenerator"
    by (simp add: exampleManager_def)
  have p: "getTransformParams exampleGenerator ?slo = Inr ?params"
    by (simp add: exampleGenerator_def)
  have h: "2 \<le> maxRetries exampleConfig \<and>
           (\<forall>k<2. failsTransiently exampleClassify ?op (env emptyWorld) k) \<and>
           esClient ?mgr (env emptyWorld @ replicate 2 (PutTransform ?params, []))
             (PutTransform ?params, []) = Ok"
    by (simp add: exampleConfig_def failsTransiently_def attemptResult_def esCall_def
          transportResult_def flakyClient_def emptyWorld_def exampleManager_def
          eval_nat_numeral All_less_Suc)
  show ?thesis
    using install_returns_generated_transform_id[OF g p, where N = 2 and classify = exampleClassify and config = exampleConfig
          and w = emptyWorld, THEN conjunct1, THEN mp, OF h]
    by (simp add: emptyWorld_def exampleConfig_def attemptResult_def esCall_def
          transportResult_def flakyClient_def exampleManager_def eval_nat_numeral)
qed

section \<open>The transform manager: the parameters of stop and delete requests\<close>

text \<open>
  C9.  From any state, \<open>stop\<close> sends at least one request, and every request it sends
  is the stop request for the given transform with \<open>wait_for_completion\<close> set to true
  (and \<open>force\<close> true, ignoring status 404).
\<close>

theorem stop_waits_for_completion:
  "issued w (snd (stop classify config this transformId w)) \<noteq> [] \<and>
   (\<forall>c \<in> set (issued w (snd (stop classify config this transformId w))).
      c = (StopTransform transformId True True, [404]) \<and>
      wait_for_completion (fst c) = Some True)"
proof -
  let ?c = "(StopTransform transformId True True, [404])"
  obtain n where n: "0 < n"
    "issued w (snd (retryTransientEsErrors classify config (esCall (esClient this) ?c) w)) =
       replicate n ?c"
    using issued_retry_esCall by blast
  have "issued w (snd (stop classify config this transformId w)) = replicate n ?c"
    using n(2) by (auto simp: stop_def split: prod.splits sum.splits)
  with n(1) show ?thesis by auto
qed

theorem stop_waits_for_completion_witness:
  "wait_for_completion
     (fst (hd (issued emptyWorld
        (snd (stop exampleClassify exampleConfig (exampleManager flakyClient) ''job-2''
                emptyWorld))))) = Some True"
  using stop_waits_for_completion[of emptyWorld exampleClassify exampleConfig
          "exampleManager flakyClient" "''job-2''"]
  by (meson hd_in_set)

text \<open>
  C10.  From any state, every request \<open>stop\<close> sends and every request \<open>uninstall\<close>
  sends has \<open>force\<close> set to true.  \<open>uninstall\<close> sends the forced delete request
  whatever was sent before it: nothing requires the transform to have been stopped.
\<close>

theorem stop_uninstall_force:
  "issued w (snd (stop classify config this transformId w)) \<noteq> [] \<and>
   (\<forall>c \<in> set (issued w (snd (stop classify config this transformId w))).
      force (fst c) = Some True) \<and>
   issued w (snd (uninstall classify config this transformId w)) \<noteq> [] \<and>
   (\<forall>c \<in> set (issued w (snd (uninstall classify config this transformId w))).
      c = (DeleteTransform transformId True, [404]) \<and> force (fst c) = Some True)"
proof -
  let ?c = "(StopTransform transformId True True, [404])"
  let ?d = "(DeleteTransform transformId True, [404])"
  obtain n where n: "0 < n"
    "issued w (snd (retryTransientEsErrors classify config (esCall (esClient this) ?c) w)) =
       replicate n ?c"
    using issued_retry_esCall by blast
  obtain m where m: "0 < m"
    "issued w (snd (retryTransientEsErrors classify config (esCall (esClient this) ?d) w)) =
       replicate m ?d"
    using issued_retry_esCall by blast
  have s: "issued w (snd (stop classify config this transformId w)) = replicate n ?c"
    using n(2) by (auto simp: stop_def split: prod.splits sum.splits)
  have u: "issued w (snd (uninstall classify config this transformId w)) = replicate m ?d"
    using m(2) by (auto simp: uninstall_def split: prod.splits sum.splits)
  from s u n(1) m(1) show ?thesis by auto
qed

theorem stop_uninstall_force_witness:
  "force (fst (hd (issued (emptyWorld\<lparr>env := [(StartTransform ''job-2'', [409])]\<rparr>)
     (snd (stop exampleClassify exampleConfig (exampleManager flakyClient) ''job-2''
             (emptyWorld\<lparr>env := [(StartTransform ''job-2'', [409])]\<rparr>)))))) = Some True \<and>
   hd (issued (emptyWorld\<lparr>env := [(StartTransform ''job-2'', [409])]\<rparr>)
     (snd (uninstall exampleClassify exampleConfig (exampleManager flakyClient) ''job-2''
             (emptyWorld\<lparr>env := [(StartTransform ''job-2'', [409])]\<rparr>)))) =
     (DeleteTransform ''job-2'' True, [404])"
  using stop_uninstall_force[of "emptyWorld\<lparr>env := [(StartTransform ''job-2'', [409])]\<rparr>"
          exampleClassify exampleConfig "exampleManager flakyClient" "''job-2''"]
  by (meson hd_in_set)

end
